theory Spec2Isabelle
  imports Complex_Main "HOL-Library.Monad_Syntax"
begin

section \<open>Shared data model: task instances and their states\<close>

text \<open>
  Modelled from the spec: the enumeration \<^verbatim>\<open>airflow.utils.state.TaskInstanceState\<close> is not
  among the sources. The members are the states the specification lists for a task
  instance; the null state is \<open>None\<close> of \<open>TaskInstanceState option\<close>.
\<close>

datatype TaskInstanceState =
    SCHEDULED | QUEUED | RUNNING | UP_FOR_RETRY | UP_FOR_RESCHEDULE
  | SUCCESS | FAILED | SKIPPED | REMOVED

text \<open>
  The class \<^verbatim>\<open>State\<close> with its frozen sets \<^verbatim>\<open>State.finished\<close>, \<^verbatim>\<open>State.unfinished\<close> and
  \<^verbatim>\<open>State.running\<close> is not among the sources either. The sets are taken as a parameter of
  every function that reads them.
\<close>

record State =
  finished :: "TaskInstanceState set"
  unfinished :: "TaskInstanceState set"
  running :: "TaskInstanceState set"

text \<open>Time stamps are instants counted in microseconds, the resolution of \<^verbatim>\<open>datetime\<close>.\<close>

type_synonym datetime = int

text \<open>
  A row of the table \<^verbatim>\<open>task_instance\<close>. The primary key is
  \<open>(dag_id, task_id, run_id, map_index)\<close>.
\<close>

record TaskInstance =
  dag_id :: string
  task_id :: string
  run_id :: string
  map_index :: int
  state :: "TaskInstanceState option"
  start_date :: "datetime option"
  end_date :: "datetime option"
  duration :: "real option"
  try_number :: int
  pool :: string
  queue :: string

text \<open>
  Modelled from the spec: \<^verbatim>\<open>TaskInstance.set_duration\<close> is not among the sources. The
  specification says the duration is recomputed when the end date is stamped; the model
  recomputes it (in seconds) from the two stamps and clears it when one of them is missing.
\<close>

definition set_duration :: "TaskInstance \<Rightarrow> TaskInstance" where
  "set_duration ti =
     (case (end_date ti, start_date ti) of
        (Some e, Some s) \<Rightarrow> ti\<lparr>duration := Some (real_of_int (e - s) / 1000000)\<rparr>
      | _ \<Rightarrow> ti\<lparr>duration := None\<rparr>)"

text \<open>\<^verbatim>\<open>x in State.finished\<close> for a state that may be null: null is in no state set.\<close>

definition state_in :: "TaskInstanceState option \<Rightarrow> TaskInstanceState set \<Rightarrow> bool" where
  "state_in st S = (case st of None \<Rightarrow> False | Some s \<Rightarrow> s \<in> S)"

section \<open>Task instance history (\<^verbatim>\<open>airflow/models/taskinstancehistory.py\<close>)\<close>

text \<open>
  A row of \<^verbatim>\<open>task_instance_history\<close>. The surrogate key \<^verbatim>\<open>id\<close> is assigned by the database
  and is left out; the columns kept are those of \<open>TaskInstance\<close> above, every other column
  is copied in the same way.
\<close>

record TaskInstanceHistory =
  h_task_id :: string
  h_dag_id :: string
  h_run_id :: string
  h_map_index :: int
  h_start_date :: "datetime option"
  h_end_date :: "datetime option"
  h_duration :: "real option"
  h_state :: "TaskInstanceState option"
  h_try_number :: int
  h_pool :: string
  h_queue :: string

text \<open>
  \<^verbatim>\<open>TaskInstanceHistory.__init__(ti, state)\<close>: every column is copied from the instance,
  then a truthy \<^verbatim>\<open>state\<close> argument overrides the copied state.
\<close>

definition TaskInstanceHistory_init ::
  "TaskInstance \<Rightarrow> TaskInstanceState option \<Rightarrow> TaskInstanceHistory" where
  "TaskInstanceHistory_init ti st =
     (let h = \<lparr> h_task_id = task_id ti, h_dag_id = dag_id ti, h_run_id = run_id ti,
                h_map_index = map_index ti, h_start_date = start_date ti,
                h_end_date = end_date ti, h_duration = duration ti, h_state = state ti,
                h_try_number = try_number ti, h_pool = pool ti, h_queue = queue ti \<rparr>
      in case st of None \<Rightarrow> h | Some s \<Rightarrow> h\<lparr>h_state := Some s\<rparr>)"

text \<open>The \<^verbatim>\<open>where\<close> clause of the existence query of \<^verbatim>\<open>record_ti\<close>.\<close>

definition same_try :: "TaskInstance \<Rightarrow> TaskInstanceHistory \<Rightarrow> bool" where
  "same_try ti h \<longleftrightarrow>
     h_dag_id h = dag_id ti \<and> h_task_id h = task_id ti \<and> h_run_id h = run_id ti \<and>
     h_map_index h = map_index ti \<and> h_try_number h = try_number ti"

text \<open>
  \<^verbatim>\<open>TaskInstanceHistory.record_ti(ti, session)\<close>. The session is the history table (a list
  of rows); \<open>now\<close> is the value \<^verbatim>\<open>timezone.utcnow()\<close> returns. The result is the live
  instance as the call leaves it and the history table with the added row.
\<close>

definition record_ti ::
  "State \<Rightarrow> datetime \<Rightarrow> TaskInstance \<Rightarrow> TaskInstanceHistory list
     \<Rightarrow> TaskInstance \<times> TaskInstanceHistory list" where
  "record_ti St now ti hist =
     (let exists_q = length (filter (same_try ti) hist) in
      if exists_q \<noteq> 0 then (ti, hist)
      else
        let (ti_history_state, ti') =
              (if \<not> state_in (state ti) (finished St)
               then (Some FAILED, set_duration (ti\<lparr>end_date := Some now\<rparr>))
               else (state ti, ti));
            ti_history = TaskInstanceHistory_init ti' ti_history_state
        in (ti', hist @ [ti_history]))"

section \<open>Expansion of a mapped task (\<^verbatim>\<open>airflow/models/mappedoperator.py\<close>)\<close>

text \<open>The exceptions the modelled functions raise or let escape.\<close>

datatype error =
    RuntimeError | TypeError | ValueError | IntegrityError | MultipleResultsFound

text \<open>
  A row of the table \<^verbatim>\<open>task_map\<close>: the length an upstream task instance recorded for the
  collection it produced.
\<close>

record TaskMap =
  tm_dag_id :: string
  tm_task_id :: string
  tm_run_id :: string
  tm_map_index :: int
  tm_length :: int

text \<open>The part of the session \<^verbatim>\<open>expand_mapped_task\<close> reads and writes: two tables.\<close>

record Session =
  task_maps :: "TaskMap list"
  task_instances :: "TaskInstance list"

text \<open>The attributes of the mapped operator the method reads.\<close>

record MappedOperator =
  op_dag_id :: string
  op_task_id :: string

text \<open>
  \<^verbatim>\<open>Query.scalar()\<close> and \<^verbatim>\<open>Query.one_or_none()\<close>: no row gives \<^verbatim>\<open>None\<close>, one row gives
  the row, several rows raise \<^verbatim>\<open>MultipleResultsFound\<close>.
\<close>

fun one_or_none :: "'a list \<Rightarrow> error + 'a option" where
  "one_or_none [] = Inr None"
| "one_or_none [x] = Inr (Some x)"
| "one_or_none (x # y # ys) = Inl MultipleResultsFound"

text \<open>
  Modelled from the spec: the constructor of \<^verbatim>\<open>TaskInstance\<close> is not among the sources.
  The call \<^verbatim>\<open>TaskInstance(self, run_id=..., map_index=..., state=...)\<close> builds a row for the
  operator's own \<open>(dag_id, task_id)\<close> in the given run, with the given map index and
  state and every other attribute at its default.
\<close>

definition TaskInstance_init ::
  "MappedOperator \<Rightarrow> string \<Rightarrow> int \<Rightarrow> TaskInstanceState option \<Rightarrow> TaskInstance" where
  "TaskInstance_init self r i st =
     \<lparr> dag_id = op_dag_id self, task_id = op_task_id self, run_id = r, map_index = i,
       state = st, start_date = None, end_date = None, duration = None, try_number = 0,
       pool = ''default_pool'', queue = ''default'' \<rparr>"

text \<open>The primary key of a row, and the constraint that no two rows of the table share it.\<close>

definition pk :: "TaskInstance \<Rightarrow> string \<times> string \<times> string \<times> int" where
  "pk ti = (dag_id ti, task_id ti, run_id ti, map_index ti)"

definition pk_unique :: "TaskInstance list \<Rightarrow> bool" where
  "pk_unique rows \<longleftrightarrow> distinct (map pk rows)"


text \<open>Two rows with the same primary key.\<close>

definition same_key :: "TaskInstance \<Rightarrow> TaskInstance \<Rightarrow> bool" where
  "same_key a b \<longleftrightarrow>
     dag_id a = dag_id b \<and> task_id a = task_id b \<and> run_id a = run_id b \<and>
     map_index a = map_index b"

text \<open>
  \<^verbatim>\<open>session.merge(ti)\<close>: the row with the primary key of \<open>ti\<close> takes the attributes of
  \<open>ti\<close>; when there is none, \<open>ti\<close> is inserted.
\<close>

definition merge :: "TaskInstance \<Rightarrow> TaskInstance list \<Rightarrow> TaskInstance list" where
  "merge ti rows =
     (if \<exists>r \<in> set rows. same_key r ti
      then map (\<lambda>r. if same_key r ti then ti else r) rows
      else rows @ [ti])"

text \<open>The rows of the mapped task in the run of the upstream instance.\<close>

definition of_task :: "MappedOperator \<Rightarrow> TaskInstance \<Rightarrow> TaskInstance \<Rightarrow> bool" where
  "of_task self upstream_ti ti \<longleftrightarrow>
     dag_id ti = dag_id upstream_ti \<and> task_id ti = op_task_id self \<and>
     run_id ti = run_id upstream_ti"

text \<open>The filter of the query for the unmapped instance: map index -1, unfinished or null.\<close>

definition is_unmapped :: "State \<Rightarrow> MappedOperator \<Rightarrow> TaskInstance \<Rightarrow> TaskInstance \<Rightarrow> bool" where
  "is_unmapped St self upstream_ti ti \<longleftrightarrow>
     dag_id ti = dag_id upstream_ti \<and> run_id ti = run_id upstream_ti \<and>
     task_id ti = op_task_id self \<and> map_index ti = - 1 \<and>
     (state_in (state ti) (unfinished St) \<or> state ti = None)"

text \<open>\<^verbatim>\<open>func.max(TaskInstance.map_index)\<close> over the selected rows: null when there is none.\<close>

fun max_map_index :: "TaskInstance list \<Rightarrow> int option" where
  "max_map_index [] = None"
| "max_map_index (ti # tis) =
     (case max_map_index tis of None \<Rightarrow> Some (map_index ti)
      | Some m \<Rightarrow> Some (max (map_index ti) m))"

text \<open>The instance the loop builds for one index.\<close>

definition mapped_ti ::
  "(TaskInstance \<Rightarrow> TaskInstance) \<Rightarrow> MappedOperator \<Rightarrow> string \<Rightarrow> TaskInstanceState option
     \<Rightarrow> int \<Rightarrow> TaskInstance" where
  "mapped_ti hook self r st index = hook (TaskInstance_init self r index st)"

text \<open>
  The loop \<^verbatim>\<open>for index in indexes_to_map\<close>: build the instance, pass it through
  \<^verbatim>\<open>task_instance_mutation_hook\<close> (a setting of the installation, a parameter here), merge
  it into the session and append the merged instance to \<^verbatim>\<open>ret\<close>.
\<close>

fun create_mapped ::
  "(TaskInstance \<Rightarrow> TaskInstance) \<Rightarrow> MappedOperator \<Rightarrow> string \<Rightarrow> TaskInstanceState option
     \<Rightarrow> int list \<Rightarrow> TaskInstance list \<times> TaskInstance list
     \<Rightarrow> TaskInstance list \<times> TaskInstance list" where
  "create_mapped hook self r st [] (ret, rows) = (ret, rows)"
| "create_mapped hook self r st (index # indexes) (ret, rows) =
     (let ti = mapped_ti hook self r st index
      in create_mapped hook self r st indexes (ret @ [ti], merge ti rows))"

text \<open>
  The bulk update that closes the method: every row of the task in the run whose map index
  is at least the resolved length gets the state \<open>REMOVED\<close>.
\<close>

definition mark_removed ::
  "MappedOperator \<Rightarrow> TaskInstance \<Rightarrow> int \<Rightarrow> TaskInstance \<Rightarrow> TaskInstance" where
  "mark_removed self upstream_ti n ti =
     (if of_task self upstream_ti ti \<and> n \<le> map_index ti
      then ti\<lparr>state := Some REMOVED\<rparr> else ti)"

text \<open>
  The first query: the length recorded in \<^verbatim>\<open>task_map\<close> for the upstream instance, read
  with \<^verbatim>\<open>scalar()\<close>.
\<close>

definition tm_of :: "TaskInstance \<Rightarrow> TaskMap \<Rightarrow> bool" where
  "tm_of upstream_ti m \<longleftrightarrow>
     tm_dag_id m = dag_id upstream_ti \<and> tm_task_id m = task_id upstream_ti \<and>
     tm_run_id m = run_id upstream_ti \<and> tm_map_index m = map_index upstream_ti"

definition task_map_info :: "TaskInstance \<Rightarrow> Session \<Rightarrow> error + int option" where
  "task_map_info upstream_ti session =
     one_or_none (map tm_length (filter (tm_of upstream_ti) (task_maps session)))"

text \<open>
  \<^verbatim>\<open>MappedOperator.expand_mapped_task(upstream_ti, session)\<close>. The result is the exception
  raised, or the returned list with the session as the call leaves it.

  The unmapped instance is changed in place. Re-keying it to map index 0 is an update of
  its primary key, which the database refuses with an integrity error when a row of the
  task in the run already has map index 0; the error surfaces at the first flush, before
  any other change. The returned instances are the session's own objects, so the closing
  bulk update shows in them as well.
\<close>

definition expand_mapped_task ::
  "State \<Rightarrow> (TaskInstance \<Rightarrow> TaskInstance) \<Rightarrow> MappedOperator \<Rightarrow> TaskInstance \<Rightarrow> Session
     \<Rightarrow> error + (TaskInstance list \<times> Session)" where
  "expand_mapped_task St hook self upstream_ti session =
     (case task_map_info upstream_ti session of
        Inl e \<Rightarrow> Inl e
      | Inr None \<Rightarrow> Inl RuntimeError
      | Inr (Some task_map_info_length) \<Rightarrow>
         (case one_or_none (filter (is_unmapped St self upstream_ti) (task_instances session)) of
            Inl e \<Rightarrow> Inl e
          | Inr (Some unmapped_ti) \<Rightarrow>
             (if task_map_info_length < 1
              then Inr ([], session\<lparr>task_instances :=
                         map (\<lambda>ti. if is_unmapped St self upstream_ti ti
                                    then ti\<lparr>state := Some SKIPPED\<rparr> else ti)
                             (task_instances session)\<rparr>)
              else if \<exists>ti \<in> set (task_instances session).
                         same_key ti (unmapped_ti\<lparr>map_index := 0\<rparr>)
              then Inl IntegrityError
              else
                let rows = map (\<lambda>ti. if is_unmapped St self upstream_ti ti
                                      then ti\<lparr>map_index := 0\<rparr> else ti)
                               (task_instances session);
                    st = state unmapped_ti;
                    (ret, rows') = create_mapped hook self (run_id upstream_ti) st
                                     [1 .. task_map_info_length - 1]
                                     ([unmapped_ti\<lparr>map_index := 0\<rparr>], rows)
                in Inr (map (mark_removed self upstream_ti task_map_info_length) ret,
                        session\<lparr>task_instances :=
                          map (mark_removed self upstream_ti task_map_info_length) rows'\<rparr>))
          | Inr None \<Rightarrow>
             (case max_map_index (filter (of_task self upstream_ti) (task_instances session)) of
                None \<Rightarrow> Inl TypeError
              | Some current_max_mapping \<Rightarrow>
                 (let (ret, rows') = create_mapped hook self (run_id upstream_ti) None
                                       [current_max_mapping + 1 .. task_map_info_length - 1]
                                       ([], task_instances session)
                  in Inr (map (mark_removed self upstream_ti task_map_info_length) ret,
                          session\<lparr>task_instances :=
                            map (mark_removed self upstream_ti task_map_info_length) rows'\<rparr>)))))"


section \<open>The sensor poke loop (\<^verbatim>\<open>airflow/sensors/base.py\<close>)\<close>

datatype FailPolicy = NONE | SKIP_ON_ANY_ERROR | SKIP_ON_TIMEOUT | IGNORE_ERROR

text \<open>
  What \<^verbatim>\<open>poke\<close> or \<^verbatim>\<open>execute\<close> can raise. The first four are the classes the first
  \<^verbatim>\<open>except\<close> clause of \<^verbatim>\<open>execute\<close> names; \<open>OtherException\<close> is any other subclass of
  \<^verbatim>\<open>Exception\<close> (the generic exceptions of a criteria check), \<open>Builtin\<close> a built-in error such
  as the \<^verbatim>\<open>ValueError\<close> of \<^verbatim>\<open>time.sleep\<close> on a negative length, and \<open>OtherBaseException\<close> an
  exception outside \<^verbatim>\<open>Exception\<close>, which no clause catches.
\<close>

datatype 'x raised =
    AirflowSensorTimeout | AirflowTaskTimeout | AirflowPokeFailException | AirflowSkipException
  | AirflowRescheduleException real
  | AirflowException
  | OtherException 'x
  | Builtin error
  | OtherBaseException 'x

text \<open>The value of \<^verbatim>\<open>poke\<close>: a boolean, or a \<^verbatim>\<open>PokeReturnValue(is_done, xcom_value)\<close>.\<close>

datatype 'v poke_return = Bool bool | PokeReturnValue bool "'v option"

datatype ('v, 'x) poke_outcome = Returns "'v poke_return" | Raises "'x raised"


text \<open>The attributes of the sensor the two methods read. Durations are in seconds.\<close>

record BaseSensorOperator =
  sensor_dag_id :: string
  sensor_task_id :: string
  retries :: "int option"
  poke_interval :: real
  timeout :: real
  soft_fail :: bool
  mode :: string
  exponential_backoff :: bool
  max_wait :: "real option"
  silent_fail :: bool
  fail_policy :: FailPolicy

text \<open>The property \<^verbatim>\<open>reschedule\<close>.\<close>

definition reschedule :: "BaseSensorOperator \<Rightarrow> bool" where
  "reschedule self \<longleftrightarrow> mode self = ''reschedule''"

text \<open>
  The surroundings of one run of \<^verbatim>\<open>execute\<close>: what the \<open>k\<close>-th call of \<^verbatim>\<open>poke\<close> does, what
  the \<open>k\<close>-th reading of \<^verbatim>\<open>time.monotonic()\<close> and of \<^verbatim>\<open>timezone.utcnow()\<close> is (seconds),
  the start date the table \<^verbatim>\<open>task_reschedule\<close> holds for a try number, the attribute
  \<^verbatim>\<open>max_tries\<close> of the task instance, and the settings \<^verbatim>\<open>_is_metadatabase_mysql\<close> reads.
  The \<open>world\<close> counts the calls made so far.
\<close>

record ('v, 'x) env =
  poke_at :: "nat \<Rightarrow> ('v, 'x) poke_outcome"
  monotonic_at :: "nat \<Rightarrow> real"
  utcnow_at :: "nat \<Rightarrow> real"
  orig_start_date :: "int \<Rightarrow> real option"
  ti_max_tries :: "int option"
  use_internal_api :: bool
  engine_backend :: "string option"

record world =
  pokes :: nat
  mono_reads :: nat
  utc_reads :: nat

definition utcnow :: "('v, 'x) env \<Rightarrow> world \<Rightarrow> real \<times> world" where
  "utcnow E w = (utcnow_at E (utc_reads w), w\<lparr>utc_reads := Suc (utc_reads w)\<rparr>)"

definition monotonic :: "('v, 'x) env \<Rightarrow> world \<Rightarrow> real \<times> world" where
  "monotonic E w = (monotonic_at E (mono_reads w), w\<lparr>mono_reads := Suc (mono_reads w)\<rparr>)"


definition is_metadatabase_mysql :: "('v, 'x) env \<Rightarrow> 'x raised + bool" where
  "is_metadatabase_mysql E =
     (if use_internal_api E then Inr False
      else case engine_backend E of
             None \<Rightarrow> Inl AirflowException
           | Some name \<Rightarrow> Inr (name = ''mysql''))"




text \<open>
  The value \<^verbatim>\<open>started_at\<close>: the start date of the first try in reschedule mode, a reading
  of the monotonic clock otherwise.
\<close>

datatype started = StartDate real | Monotonic real

text \<open>
  The library functions of the jitter: \<^verbatim>\<open>int(hashlib.sha1(s.encode()).hexdigest(), 16)\<close>
  and the rendering \<^verbatim>\<open>str\<close> of \<^verbatim>\<open>started_at\<close> and of an integer in an f-string. They are
  parameters.
\<close>

record python =
  sha1_int :: "string \<Rightarrow> int"
  str_started :: "started \<Rightarrow> string"
  str_int :: "int \<Rightarrow> string"

text \<open>\<^verbatim>\<open>int(x)\<close> of a float truncates towards zero; \<^verbatim>\<open>2 ** e\<close> for an integer \<open>e\<close>.\<close>

definition py_int :: "real \<Rightarrow> int" where
  "py_int x = (if 0 \<le> x then \<lfloor>x\<rfloor> else \<lceil>x\<rceil>)"

definition pow2 :: "int \<Rightarrow> real" where
  "pow2 e = (if 0 \<le> e then 2 ^ nat e else 1 / 2 ^ nat (- e))"

text \<open>\<^verbatim>\<open>timedelta.max.total_seconds()\<close>.\<close>

definition timedelta_max_total_seconds :: real where
  "timedelta_max_total_seconds = 86399999999999.999999"

text \<open>
  The backoff with jitter for one poke count, as both places of
  \<^verbatim>\<open>_get_next_poke_interval\<close> compute it: \<^verbatim>\<open>min_backoff\<close>, the hash of
  \<^verbatim>\<open>f"{dag_id}#{task_id}#{started_at}#{poke_count}"\<close>, \<^verbatim>\<open>modded_hash\<close>, and the cap.
\<close>

definition min_backoff :: "BaseSensorOperator \<Rightarrow> int \<Rightarrow> int" where
  "min_backoff self poke_count = max (py_int (poke_interval self * pow2 (poke_count - 2))) 1"

definition run_hash :: "python \<Rightarrow> BaseSensorOperator \<Rightarrow> started \<Rightarrow> int \<Rightarrow> int" where
  "run_hash py self started_at poke_count =
     sha1_int py (sensor_dag_id self @ ''#'' @ sensor_task_id self @ ''#'' @
                  str_started py started_at @ ''#'' @ str_int py poke_count)"

definition interval_with_jitter ::
  "python \<Rightarrow> BaseSensorOperator \<Rightarrow> started \<Rightarrow> int \<Rightarrow> real" where
  "interval_with_jitter py self started_at poke_count =
     (let mb = min_backoff self poke_count;
          modded_hash = mb + run_hash py self started_at poke_count mod mb
      in min (real_of_int modded_hash) (timedelta_max_total_seconds - 1))"

text \<open>
  The simulation loop of the reschedule mode,
  \<^verbatim>\<open>while cumulative_time <= elapsed_time\<close>: it returns \<^verbatim>\<open>estimated_poke_count\<close>.
\<close>

function estimate_poke_count ::
  "python \<Rightarrow> BaseSensorOperator \<Rightarrow> started \<Rightarrow> real \<Rightarrow> real \<Rightarrow> int \<Rightarrow> int" where
  "estimate_poke_count py self started_at elapsed_time cumulative_time estimated_poke_count =
     (if cumulative_time \<le> elapsed_time
      then estimate_poke_count py self started_at elapsed_time
             (cumulative_time +
                interval_with_jitter py self started_at (estimated_poke_count + 1))
             (estimated_poke_count + 1)
      else estimated_poke_count)"
  by pat_completeness auto
termination
proof (relation "measure (\<lambda>(py, self, started_at, elapsed_time, cumulative_time, n).
                   nat (\<lfloor>elapsed_time - cumulative_time\<rfloor> + 1))")
  show "wf (measure (\<lambda>(py, self, started_at, elapsed_time, cumulative_time, n).
                   nat (\<lfloor>elapsed_time - cumulative_time\<rfloor> + 1)))"
    by simp
next
  fix py :: python and self :: BaseSensorOperator and started_at :: started
    and elapsed_time cumulative_time :: real and estimated_poke_count :: int
  assume le: "cumulative_time \<le> elapsed_time"
  let ?iv = "interval_with_jitter py self started_at (estimated_poke_count + 1)"
  have mb: "1 \<le> min_backoff self (estimated_poke_count + 1)"
    by (simp add: min_backoff_def)
  then have "0 \<le> run_hash py self started_at (estimated_poke_count + 1)
                    mod min_backoff self (estimated_poke_count + 1)"
    by simp
  then have "(1::real) \<le> real_of_int (min_backoff self (estimated_poke_count + 1) +
                run_hash py self started_at (estimated_poke_count + 1)
                  mod min_backoff self (estimated_poke_count + 1))"
    using mb by linarith
  then have iv: "1 \<le> ?iv"
    by (simp add: interval_with_jitter_def Let_def timedelta_max_total_seconds_def)
  have "\<lfloor>elapsed_time - (cumulative_time + ?iv)\<rfloor> \<le> \<lfloor>elapsed_time - cumulative_time - 1\<rfloor>"
    using iv by (intro floor_mono) simp
  then have "\<lfloor>elapsed_time - (cumulative_time + ?iv)\<rfloor> + 1 \<le> \<lfloor>elapsed_time - cumulative_time\<rfloor>"
    by simp
  moreover have "0 \<le> \<lfloor>elapsed_time - cumulative_time\<rfloor>" using le by simp
  ultimately show "((py, self, started_at, elapsed_time, cumulative_time + ?iv,
                     estimated_poke_count + 1),
                    (py, self, started_at, elapsed_time, cumulative_time, estimated_poke_count))
                   \<in> measure (\<lambda>(py, self, started_at, elapsed_time, cumulative_time, n).
                        nat (\<lfloor>elapsed_time - cumulative_time\<rfloor> + 1))"
    by simp
qed

text \<open>
  \<^verbatim>\<open>BaseSensorOperator._get_next_poke_interval(started_at, run_duration, poke_count)\<close>.
  The callable \<^verbatim>\<open>run_duration\<close> reads a clock: it takes the world and returns the elapsed
  seconds with the world after the reading. A zero \<^verbatim>\<open>max_wait\<close> is falsy.
\<close>

definition get_next_poke_interval ::
  "python \<Rightarrow> BaseSensorOperator \<Rightarrow> started \<Rightarrow> ('w \<Rightarrow> real \<times> 'w) \<Rightarrow> int \<Rightarrow> 'w \<Rightarrow> real \<times> 'w" where
  "get_next_poke_interval py self started_at run_duration poke_count w =
     (if \<not> exponential_backoff self then (poke_interval self, w)
      else
        let (poke_count', w1) =
              (if reschedule self
               then let (elapsed_time, w') = run_duration w;
                        estimated_poke_count =
                          estimate_poke_count py self started_at elapsed_time 0 0
                    in (if estimated_poke_count \<noteq> 0 then estimated_poke_count else poke_count, w')
               else (poke_count, w));
            delay_backoff_in_seconds = interval_with_jitter py self started_at poke_count';
            (d, w2) = run_duration w1;
            new_interval = min (timeout self - real_of_int (py_int d)) delay_backoff_in_seconds;
            new_interval' = (case max_wait self of
                               None \<Rightarrow> new_interval
                             | Some mw \<Rightarrow> if mw \<noteq> 0 then min mw new_interval else new_interval)
        in (new_interval', w2))"





section \<open>Marking tasks (\<^verbatim>\<open>airflow/api/common/mark_tasks.py\<close>)\<close>

subsection \<open>Runs, intervals and DAGs\<close>

record DataInterval =
  di_start :: datetime
  di_end :: datetime

text \<open>
  Modelled from the spec: \<^verbatim>\<open>DagRunInfo\<close> (\<^verbatim>\<open>airflow/timetables/base.py\<close>) is not among the
  sources. The specification gives an interval of the calculator as a pair of a logical
  timestamp and a data interval; the functions below read both attributes.
\<close>

record DagRunInfo =
  logical_date :: datetime
  data_interval :: DataInterval

text \<open>
  A row of \<^verbatim>\<open>dag_run\<close>. The state and the run type are string enumerations; the state
  column also receives task-instance states (\<^verbatim>\<open>_verify_dagruns\<close>), so both are strings.
\<close>

record DagRun =
  dr_dag_id :: string
  dr_run_id :: string
  execution_date :: datetime
  dr_state :: string
  run_type :: string
  dr_start_date :: "datetime option"
  external_trigger :: bool
  dr_data_interval :: DataInterval

fun state_value :: "TaskInstanceState \<Rightarrow> string" where
  "state_value SCHEDULED = ''scheduled''"
| "state_value QUEUED = ''queued''"
| "state_value RUNNING = ''running''"
| "state_value UP_FOR_RETRY = ''up_for_retry''"
| "state_value UP_FOR_RESCHEDULE = ''up_for_reschedule''"
| "state_value SUCCESS = ''success''"
| "state_value FAILED = ''failed''"
| "state_value SKIPPED = ''skipped''"
| "state_value REMOVED = ''removed''"

text \<open>
  The attributes of a DAG and of its tasks that the functions read. A task carries the
  ids of its flat relatives (\<^verbatim>\<open>get_flat_relatives\<close>) in both directions, and a sub-DAG
  operator its nested DAG.
\<close>

record DagConf =
  default_args_start_date :: "datetime option"
  dag_start_date :: "datetime option"
  can_run :: bool
  periodic :: bool

datatype DAG = DAG (d_dag_id: string) (d_tasks: "Task list") (d_conf: DagConf)
and Task = Task (t_task_id: string) (t_task_type: string) (t_is_SubDagOperator: bool)
             (t_subdag: "DAG option") (t_downstream: "string list") (t_upstream: "string list")

text \<open>
  The session of these functions: the two tables and the number of readings of the clock
  taken so far.
\<close>

record DB =
  dag_runs :: "DagRun list"
  tis :: "TaskInstance list"
  clock :: nat

text \<open>
  What the functions call outside the sources, as parameters: \<^verbatim>\<open>timezone.is_localized\<close>,
  \<^verbatim>\<open>DAG.iter_dagrun_infos_between(start, end, align=False)\<close> (the timetable),
  \<^verbatim>\<open>DagRun.verify_integrity\<close> for a run with its DAG attached (it reconciles the task
  instances of the run with the tasks of the DAG), \<^verbatim>\<open>DagRunInfo.interval\<close>,
  \<^verbatim>\<open>DagRun.generate_run_id\<close> and the readings of \<^verbatim>\<open>timezone.utcnow()\<close>.
\<close>

record Deps =
  is_localized :: "datetime \<Rightarrow> bool"
  iter_dagrun_infos_between :: "DAG \<Rightarrow> datetime \<Rightarrow> datetime \<Rightarrow> DagRunInfo list"
  verify_integrity :: "DAG \<Rightarrow> string \<Rightarrow> TaskInstance list \<Rightarrow> TaskInstance list"
  DagRunInfo_interval :: "datetime \<Rightarrow> datetime \<Rightarrow> DagRunInfo"
  generate_run_id :: "string \<Rightarrow> datetime \<Rightarrow> string"
  now_at :: "nat \<Rightarrow> datetime"

definition db_utcnow :: "Deps \<Rightarrow> DB \<Rightarrow> datetime \<times> DB" where
  "db_utcnow deps db = (now_at deps (clock db), db\<lparr>clock := Suc (clock db)\<rparr>)"

subsection \<open>The run store\<close>

text \<open>
  Modelled from the spec: \<^verbatim>\<open>DagRun.find\<close>, \<^verbatim>\<open>DAG.get_run_data_interval\<close>,
  \<^verbatim>\<open>DAG.create_dagrun\<close>, \<^verbatim>\<open>DAG.get_dagruns_between\<close> and \<^verbatim>\<open>DAG.get_latest_execution_date\<close>
  are not among the sources. After the specification, \<open>find_runs\<close> returns the runs of the
  DAG at the given logical timestamps; a run records its data interval; the store keeps
  at most one run per DAG and logical timestamp, and a create that would violate this is a
  read of the row that is there; \<open>get_runs_between\<close> returns the runs of the DAG
  within the two bounds; the latest execution timestamp is the largest one recorded for
  the DAG, if any.
\<close>

definition find_runs :: "string \<Rightarrow> datetime list \<Rightarrow> DB \<Rightarrow> DagRun list" where
  "find_runs dag_id' dates db =
     filter (\<lambda>r. dr_dag_id r = dag_id' \<and> execution_date r \<in> set dates) (dag_runs db)"

definition get_run_data_interval :: "DAG \<Rightarrow> DagRun \<Rightarrow> DataInterval" where
  "get_run_data_interval dag run = dr_data_interval run"

definition create_dagrun ::
  "Deps \<Rightarrow> DAG \<Rightarrow> datetime \<Rightarrow> DataInterval \<Rightarrow> datetime \<Rightarrow> bool \<Rightarrow> string \<Rightarrow> string \<Rightarrow> DB
     \<Rightarrow> DagRun \<times> DB" where
  "create_dagrun deps dag execution_date' data_interval' start_date' external_trigger' state'
       run_type' db =
     (case find (\<lambda>r. dr_dag_id r = d_dag_id dag \<and> execution_date r = execution_date')
             (dag_runs db) of
        Some r \<Rightarrow> (r, db)
      | None \<Rightarrow>
          let run = \<lparr> dr_dag_id = d_dag_id dag,
                      dr_run_id = generate_run_id deps run_type' execution_date',
                      execution_date = execution_date', dr_state = state', run_type = run_type',
                      dr_start_date = Some start_date', external_trigger = external_trigger',
                      dr_data_interval = data_interval' \<rparr>
          in (run, db\<lparr>dag_runs := dag_runs db @ [run]\<rparr>))"

definition get_dagruns_between :: "DAG \<Rightarrow> datetime \<Rightarrow> datetime \<Rightarrow> DB \<Rightarrow> DagRun list" where
  "get_dagruns_between dag start_date' end_date' db =
     filter (\<lambda>r. dr_dag_id r = d_dag_id dag \<and> start_date' \<le> execution_date r \<and>
                 execution_date r \<le> end_date') (dag_runs db)"

definition get_latest_execution_date :: "DAG \<Rightarrow> DB \<Rightarrow> datetime option" where
  "get_latest_execution_date dag db =
     (case filter (\<lambda>r. dr_dag_id r = d_dag_id dag) (dag_runs db) of
        [] \<Rightarrow> None
      | r # rs \<Rightarrow> Some (foldl max (execution_date r) (map execution_date rs)))"

subsection \<open>\<^verbatim>\<open>_create_dagruns\<close>\<close>

text \<open>
  A Python dictionary keeps its keys in insertion order: an assignment replaces the value
  of a key that is there and appends a new key.
\<close>

fun dict_set :: "('k \<times> 'v) list \<Rightarrow> 'k \<Rightarrow> 'v \<Rightarrow> ('k \<times> 'v) list" where
  "dict_set [] k v = [(k, v)]"
| "dict_set ((k', v') # d) k v = (if k' = k then (k, v) # d else (k', v') # dict_set d k v)"

text \<open>The loop \<^verbatim>\<open>for info in infos\<close> over the dictionary and the session.\<close>

fun create_missing ::
  "Deps \<Rightarrow> DAG \<Rightarrow> string \<Rightarrow> string \<Rightarrow> DagRunInfo list \<Rightarrow> (DataInterval \<times> DagRun) list \<times> DB
     \<Rightarrow> (DataInterval \<times> DagRun) list \<times> DB" where
  "create_missing deps dag state' run_type' [] (d, db) = (d, db)"
| "create_missing deps dag state' run_type' (info # infos) (d, db) =
     (if data_interval info \<in> fst ` set d
      then create_missing deps dag state' run_type' infos (d, db)
      else
        let (now, db1) = db_utcnow deps db;
            (run, db2) = create_dagrun deps dag (logical_date info) (data_interval info) now
                           False state' run_type' db1
        in create_missing deps dag state' run_type' infos
             (dict_set d (data_interval info) run, db2))"

text \<open>
  \<^verbatim>\<open>_create_dagruns(dag, infos, state, run_type)\<close>: the runs found at the logical dates
  of the infos, keyed by their data interval, then a new run for every info whose data
  interval is no key yet. The value is \<^verbatim>\<open>dag_runs.values()\<close>.
\<close>

definition create_dagruns ::
  "Deps \<Rightarrow> DAG \<Rightarrow> DagRunInfo list \<Rightarrow> string \<Rightarrow> string \<Rightarrow> DB \<Rightarrow> DagRun list \<times> DB" where
  "create_dagruns deps dag infos state' run_type' db =
     (let dag_runs0 = foldl (\<lambda>d run. dict_set d (get_run_data_interval dag run) run) []
                        (find_runs (d_dag_id dag) (map logical_date infos) db);
          (d, db') = create_missing deps dag state' run_type' infos (dag_runs0, db)
      in (map snd d, db'))"

subsection \<open>\<^verbatim>\<open>_get_execution_dates\<close>\<close>

text \<open>
  \<^verbatim>\<open>_get_execution_dates(dag, execution_date, future, past)\<close>: the error raised or the
  list of dates. The function reads the session and changes nothing.
\<close>

definition get_execution_dates ::
  "Deps \<Rightarrow> DAG \<Rightarrow> datetime \<Rightarrow> bool \<Rightarrow> bool \<Rightarrow> DB \<Rightarrow> error + datetime list" where
  "get_execution_dates deps dag execution_date' future past db =
     (case get_latest_execution_date dag db of
        None \<Rightarrow> Inl ValueError
      | Some latest_execution_date \<Rightarrow>
          let end_date' = (if future then latest_execution_date else execution_date');
              start_date' = (case default_args_start_date (d_conf dag) of
                               Some s \<Rightarrow> s
                             | None \<Rightarrow> (case dag_start_date (d_conf dag) of
                                          Some s \<Rightarrow> s
                                        | None \<Rightarrow> execution_date'));
              start_date'' = (if \<not> past then execution_date' else start_date')
          in if \<not> can_run (d_conf dag)
             then Inr (sort (remdups (map execution_date
                         (get_dagruns_between dag start_date'' end_date' db))))
             else if \<not> periodic (d_conf dag)
             then Inr [start_date'']
             else Inr (map logical_date
                         (iter_dagrun_infos_between deps dag start_date'' end_date')))"

subsection \<open>The helpers of \<^verbatim>\<open>set_state\<close>\<close>

text \<open>\<^verbatim>\<open>current_dag.has_task(task_id)\<close> and \<^verbatim>\<open>current_dag.get_task(task_id)\<close>.\<close>

definition get_task :: "DAG \<Rightarrow> string \<Rightarrow> Task option" where
  "get_task dag tid = find (\<lambda>t. t_task_id t = tid) (d_tasks dag)"

text \<open>\<^verbatim>\<open>_find_task_relatives(tasks, downstream, upstream)\<close>, the generator as a list.\<close>

definition find_task_relatives :: "Task list \<Rightarrow> bool \<Rightarrow> bool \<Rightarrow> string list" where
  "find_task_relatives tasks downstream upstream =
     concat (map (\<lambda>task. [t_task_id task] @
                          (if downstream then t_downstream task else []) @
                          (if upstream then t_upstream task else [])) tasks)"

text \<open>
  \<^verbatim>\<open>_verify_dag_run_integrity(dag, dates)\<close>: every run found is verified against the DAG,
  and its data interval gives the confirmed info.
\<close>

fun verify_runs :: "Deps \<Rightarrow> DAG \<Rightarrow> DagRun list \<Rightarrow> DB \<Rightarrow> DagRunInfo list \<times> DB" where
  "verify_runs deps dag [] db = ([], db)"
| "verify_runs deps dag (dag_run # runs) db =
     (let db1 = db\<lparr>tis := verify_integrity deps dag (dr_run_id dag_run) (tis db)\<rparr>;
          data_interval' = get_run_data_interval dag dag_run;
          info = DagRunInfo_interval deps (di_start data_interval') (di_end data_interval');
          (infos, db2) = verify_runs deps dag runs db1
      in (info # infos, db2))"

definition verify_dag_run_integrity ::
  "Deps \<Rightarrow> DAG \<Rightarrow> datetime list \<Rightarrow> DB \<Rightarrow> DagRunInfo list \<times> DB" where
  "verify_dag_run_integrity deps dag dates db =
     verify_runs deps dag (find_runs (d_dag_id dag) dates db) db"

text \<open>
  \<^verbatim>\<open>_verify_dagruns(dag_runs, commit, state, session, current_task)\<close>: each run gets the
  sub-DAG attached and is verified; with \<^verbatim>\<open>commit\<close> its state becomes the target state.
\<close>

fun verify_dagruns ::
  "Deps \<Rightarrow> DagRun list \<Rightarrow> bool \<Rightarrow> TaskInstanceState \<Rightarrow> DAG \<Rightarrow> DB \<Rightarrow> DB" where
  "verify_dagruns deps [] commit state' subdag db = db"
| "verify_dagruns deps (dag_run # runs) commit state' subdag db =
     (let db1 = db\<lparr>tis := verify_integrity deps subdag (dr_run_id dag_run) (tis db)\<rparr>;
          db2 = (if commit
                 then db1\<lparr>dag_runs :=
                        map (\<lambda>r. if dr_dag_id r = dr_dag_id dag_run \<and> dr_run_id r = dr_run_id dag_run
                                  then r\<lparr>dr_state := state_value state'\<rparr> else r)
                            (dag_runs db1)\<rparr>
                 else db1)
      in verify_dagruns deps runs commit state' subdag db2)"

text \<open>
  The body of the loop \<^verbatim>\<open>while dags\<close> of \<^verbatim>\<open>_get_subdag_runs\<close> for one DAG popped off
  the stack: the loop over \<^verbatim>\<open>task_ids\<close>. It collects the sub-DAGs to push, the ids
  appended to \<^verbatim>\<open>sub_dag_ids\<close>, and the session.
\<close>

fun scan_tasks ::
  "Deps \<Rightarrow> TaskInstanceState \<Rightarrow> bool \<Rightarrow> DagRunInfo list \<Rightarrow> DAG \<Rightarrow> string list
     \<Rightarrow> DAG list \<times> string list \<times> DB \<Rightarrow> DAG list \<times> string list \<times> DB" where
  "scan_tasks deps state' commit confirmed_infos current_dag [] acc = acc"
| "scan_tasks deps state' commit confirmed_infos current_dag (tid # task_ids) (pushed, ids, db) =
     (case get_task current_dag tid of
        None \<Rightarrow> scan_tasks deps state' commit confirmed_infos current_dag task_ids (pushed, ids, db)
      | Some current_task \<Rightarrow>
          if \<not> t_is_SubDagOperator current_task \<and> t_task_type current_task \<noteq> ''SubDagOperator''
          then scan_tasks deps state' commit confirmed_infos current_dag task_ids (pushed, ids, db)
          else (case t_subdag current_task of
                  None \<Rightarrow>
                    scan_tasks deps state' commit confirmed_infos current_dag task_ids
                      (pushed, ids, db)
                | Some subdag \<Rightarrow>
                    let (runs, db1) = create_dagruns deps subdag confirmed_infos
                                        ''running'' ''backfill'' db;
                        db2 = verify_dagruns deps runs commit state' subdag db1
                    in scan_tasks deps state' commit confirmed_infos current_dag task_ids
                         (pushed @ [subdag], ids @ [d_dag_id subdag], db2)))"

section \<open>Concrete inputs\<close>

text \<open>The state sets of the installation the examples run on.\<close>

definition airflow_State :: State where
  "airflow_State = \<lparr> finished = {SUCCESS, FAILED, SKIPPED, REMOVED},
                      unfinished = {SCHEDULED, QUEUED, RUNNING, UP_FOR_RETRY, UP_FOR_RESCHEDULE},
                      running = {RUNNING} \<rparr>"

text \<open>The mapped task \<open>t\<close> of DAG \<open>d\<close>, and the instance of its upstream \<open>u\<close> in run \<open>r\<close>.\<close>

definition op_t :: MappedOperator where
  "op_t = \<lparr> op_dag_id = ''d'', op_task_id = ''t'' \<rparr>"

definition ti_t :: "int \<Rightarrow> TaskInstanceState option \<Rightarrow> TaskInstance" where
  "ti_t i st = TaskInstance_init op_t ''r'' i st"

definition up_ti :: TaskInstance where
  "up_ti = TaskInstance_init \<lparr> op_dag_id = ''d'', op_task_id = ''u'' \<rparr> ''r'' (- 1) (Some SUCCESS)"

definition tm_u :: "int \<Rightarrow> TaskMap" where
  "tm_u n = \<lparr> tm_dag_id = ''d'', tm_task_id = ''u'', tm_run_id = ''r'', tm_map_index = - 1,
             tm_length = n \<rparr>"

text \<open>A running first try of \<open>t\<close>, started at second 1.\<close>

definition running_ti :: TaskInstance where
  "running_ti = (ti_t (- 1) (Some RUNNING))\<lparr>start_date := Some 1000000, try_number := 1\<rparr>"



text \<open>
  Two sensors of one configuration that differ in their fail policy, stand-ins for the
  library functions, and a clock that shows 5 elapsed seconds.
\<close>

definition sensor_a :: BaseSensorOperator where
  "sensor_a = \<lparr> sensor_dag_id = ''d'', sensor_task_id = ''s'', retries = None,
                poke_interval = 60, timeout = 3600, soft_fail = False, mode = ''poke'',
                exponential_backoff = True, max_wait = None, silent_fail = False,
                fail_policy = NONE \<rparr>"

definition sensor_b :: BaseSensorOperator where
  "sensor_b = sensor_a\<lparr>fail_policy := IGNORE_ERROR, silent_fail := True\<rparr>"

definition py_toy :: python where
  "py_toy = \<lparr> sha1_int = (\<lambda>s. int (length s)), str_started = (\<lambda>s. ''0''),
              str_int = (\<lambda>i. ''1'') \<rparr>"

definition five :: "unit \<Rightarrow> real \<times> unit" where
  "five w = (5, w)"





section \<open>Lemmas on the expansion of a mapped task\<close>

text \<open>A filter that selects rows of one key selects one row of a table with unique keys.\<close>

lemma filter_unique_key:
  "distinct (map f xs) \<Longrightarrow> x \<in> set xs \<Longrightarrow> P x \<Longrightarrow> (\<forall>y \<in> set xs. P y \<longrightarrow> f y = f x)
     \<Longrightarrow> filter P xs = [x]"
proof (induction xs)
  case Nil
  then show ?case by simp
next
  case (Cons a xs)
  show ?case
  proof (cases "a = x")
    case True
    have "\<forall>y \<in> set xs. \<not> P y"
    proof
      fix y assume y: "y \<in> set xs"
      show "\<not> P y"
      proof
        assume "P y"
        then have "f y = f a" using Cons.prems(4) y True by simp
        moreover have "f a \<notin> f ` set xs" using Cons.prems(1) by simp
        ultimately show False using y by (metis imageI)
      qed
    qed
    then have "filter P xs = []" by (simp add: filter_empty_conv)
    then show ?thesis using True Cons.prems(3) by simp
  next
    case False
    then have xin: "x \<in> set xs" using Cons.prems(2) by simp
    have "f a \<notin> f ` set xs" using Cons.prems(1) by simp
    then have "f a \<noteq> f x" using xin by (metis imageI)
    then have "\<not> P a" using Cons.prems(4) by auto
    moreover have "filter P xs = [x]"
    proof (rule Cons.IH)
      show "distinct (map f xs)" using Cons.prems(1) by simp
      show "x \<in> set xs" by (rule xin)
      show "P x" by (rule Cons.prems(3))
      show "\<forall>y \<in> set xs. P y \<longrightarrow> f y = f x" using Cons.prems(4) by simp
    qed
    ultimately show ?thesis by simp
  qed
qed

lemma unmapped_same_pk:
  "is_unmapped St self u a \<Longrightarrow> is_unmapped St self u b \<Longrightarrow> pk a = pk b"
  by (simp add: is_unmapped_def pk_def)

lemma filter_unmapped:
  assumes "pk_unique rows" "p \<in> set rows" "is_unmapped St self u p"
  shows "filter (is_unmapped St self u) rows = [p]"
proof (rule filter_unique_key [where f = pk])
  show "distinct (map pk rows)" using assms(1) by (simp add: pk_unique_def)
  show "p \<in> set rows" by fact
  show "is_unmapped St self u p" by fact
  show "\<forall>y \<in> set rows. is_unmapped St self u y \<longrightarrow> pk y = pk p"
    using unmapped_same_pk assms(3) by blast
qed

lemma unmapped_is_p:
  assumes "pk_unique rows" "p \<in> set rows" "is_unmapped St self u p"
    "ti \<in> set rows" "is_unmapped St self u ti"
  shows "ti = p"
proof -
  have "ti \<in> set (filter (is_unmapped St self u) rows)" using assms by simp
  then show ?thesis using filter_unmapped [OF assms(1-3)] by simp
qed

lemma expand_skip:
  assumes tm: "task_map_info u session = Inr (Some n)" and n: "n < 1"
    and pk: "pk_unique (task_instances session)"
    and p: "p \<in> set (task_instances session)" "is_unmapped St self u p"
  shows "expand_mapped_task St hook self u session =
           Inr ([], session\<lparr>task_instances :=
                  map (\<lambda>ti. if ti = p then ti\<lparr>state := Some SKIPPED\<rparr> else ti)
                      (task_instances session)\<rparr>)"
proof -
  have f: "filter (is_unmapped St self u) (task_instances session) = [p]"
    using filter_unmapped [OF pk p] .
  have "\<And>ti. ti \<in> set (task_instances session) \<Longrightarrow> is_unmapped St self u ti \<longleftrightarrow> ti = p"
    using unmapped_is_p [OF pk p] p(2) by blast
  then have m: "map (\<lambda>ti. if is_unmapped St self u ti then ti\<lparr>state := Some SKIPPED\<rparr> else ti)
               (task_instances session)
           = map (\<lambda>ti. if ti = p then ti\<lparr>state := Some SKIPPED\<rparr> else ti)
               (task_instances session)"
    by (intro map_cong) simp_all
  show ?thesis
    unfolding expand_mapped_task_def tm f using n m by simp
qed

text \<open>The loop of the expansion, and the two paths that create rows.\<close>

lemma create_mapped_ret:
  "fst (create_mapped hook self r st idxs (ret, rows)) =
     ret @ map (mapped_ti hook self r st) idxs"
  by (induction idxs arbitrary: ret rows) (simp_all add: Let_def)

lemma create_mapped_rows:
  "snd (create_mapped hook self r st idxs (ret, rows)) =
     foldl (\<lambda>rows i. merge (mapped_ti hook self r st i) rows) rows idxs"
  by (induction idxs arbitrary: ret rows) (simp_all add: Let_def)

lemma create_mapped_eq:
  "create_mapped hook self r st idxs (ret, rows) =
     (ret @ map (mapped_ti hook self r st) idxs,
      foldl (\<lambda>rows i. merge (mapped_ti hook self r st i) rows) rows idxs)"
  using create_mapped_ret [of hook self r st idxs ret rows]
    create_mapped_rows [of hook self r st idxs ret rows]
  by (metis prod.collapse)

lemma map_index_mark_removed [simp]:
  "map_index (mark_removed self u n ti) = map_index ti"
  by (simp add: mark_removed_def)

lemma map_index_init [simp]: "map_index (TaskInstance_init self r i st) = i"
  by (simp add: TaskInstance_init_def)

lemma expand_placeholder:
  assumes tm: "task_map_info u session = Inr (Some n)" and n: "1 \<le> n"
    and pk: "pk_unique (task_instances session)"
    and p: "p \<in> set (task_instances session)" "is_unmapped St self u p"
    and free: "\<not> (\<exists>ti \<in> set (task_instances session). same_key ti (p\<lparr>map_index := 0\<rparr>))"
  shows "expand_mapped_task St hook self u session =
           Inr (map (mark_removed self u n)
                  (p\<lparr>map_index := 0\<rparr> # map (mapped_ti hook self (run_id u) (state p)) [1 .. n - 1]),
                session\<lparr>task_instances := map (mark_removed self u n)
                  (foldl (\<lambda>rows i. merge (mapped_ti hook self (run_id u) (state p) i) rows)
                     (map (\<lambda>ti. if ti = p then ti\<lparr>map_index := 0\<rparr> else ti)
                        (task_instances session))
                     [1 .. n - 1])\<rparr>)"
proof -
  have f: "filter (is_unmapped St self u) (task_instances session) = [p]"
    using filter_unmapped [OF pk p] .
  have "\<And>ti. ti \<in> set (task_instances session) \<Longrightarrow> is_unmapped St self u ti \<longleftrightarrow> ti = p"
    using unmapped_is_p [OF pk p] p(2) by blast
  then have m: "map (\<lambda>ti. if is_unmapped St self u ti then ti\<lparr>map_index := 0\<rparr> else ti)
               (task_instances session)
           = map (\<lambda>ti. if ti = p then ti\<lparr>map_index := 0\<rparr> else ti) (task_instances session)"
    by (intro map_cong) simp_all
  show ?thesis
    unfolding expand_mapped_task_def tm f create_mapped_eq m using n free by (simp add: Let_def)
qed

lemma expand_missing:
  assumes tm: "task_map_info u session = Inr (Some n)"
    and none: "filter (is_unmapped St self u) (task_instances session) = []"
    and m: "max_map_index (filter (of_task self u) (task_instances session)) = Some m"
  shows "expand_mapped_task St hook self u session =
           Inr (map (mark_removed self u n) (map (mapped_ti hook self (run_id u) None) [m + 1 .. n - 1]),
                session\<lparr>task_instances := map (mark_removed self u n)
                  (foldl (\<lambda>rows i. merge (mapped_ti hook self (run_id u) None i) rows)
                     (task_instances session) [m + 1 .. n - 1])\<rparr>)"
  unfolding expand_mapped_task_def tm none m create_mapped_eq by (simp add: Let_def)

text \<open>Merging a row into a table with unique keys.\<close>

lemma same_key_pk: "same_key a b \<longleftrightarrow> pk a = pk b"
  by (auto simp: same_key_def pk_def)






lemma merge_keeps: "r \<in> set rows \<Longrightarrow> pk r \<noteq> pk ti \<Longrightarrow> r \<in> set (merge ti rows)"
  by (auto simp: merge_def same_key_pk)




lemma fold_merge_keeps:
  "r \<in> set rows \<Longrightarrow> \<forall>i \<in> set idxs. pk r \<noteq> pk (f i)
     \<Longrightarrow> r \<in> set (foldl (\<lambda>rows i. merge (f i) rows) rows idxs)"
  by (induction idxs arbitrary: rows) (simp_all add: merge_keeps)






lemma of_task_pk:
  "of_task self u ti \<longleftrightarrow> pk ti = (dag_id u, op_task_id self, run_id u, map_index ti)"
  by (auto simp: of_task_def pk_def)


lemma is_unmapped_pk:
  "is_unmapped St self u ti \<Longrightarrow> pk ti = (dag_id u, op_task_id self, run_id u, - 1)"
  by (simp add: is_unmapped_def pk_def)

lemma pk_mark_removed [simp]: "pk (mark_removed self u n ti) = pk ti"
  by (simp add: mark_removed_def pk_def)

lemma of_task_mark_removed [simp]:
  "of_task self u (mark_removed self' u' n ti) = of_task self u ti"
  by (simp add: mark_removed_def of_task_def)




lemma pk_unique_eq:
  "pk_unique rows \<Longrightarrow> a \<in> set rows \<Longrightarrow> b \<in> set rows \<Longrightarrow> pk a = pk b \<Longrightarrow> a = b"
  unfolding pk_unique_def by (metis distinct_map inj_onD)













section \<open>Lemmas on the sensor\<close>

text \<open>The jitter and the simulated poke count read the interval and the two identifiers only.\<close>

lemma interval_with_jitter_cong:
  assumes "poke_interval a = poke_interval b"
    and "sensor_dag_id a = sensor_dag_id b" "sensor_task_id a = sensor_task_id b"
  shows "interval_with_jitter py a started_at n = interval_with_jitter py b started_at n"
  using assms by (simp add: interval_with_jitter_def min_backoff_def run_hash_def)

lemma estimate_poke_count_cong:
  assumes "poke_interval a = poke_interval b"
    and "sensor_dag_id a = sensor_dag_id b" "sensor_task_id a = sensor_task_id b"
  shows "estimate_poke_count py a started_at e c n = estimate_poke_count py b started_at e c n"
  using assms
proof (induction py a started_at e c n rule: estimate_poke_count.induct)
  case (1 py self started_at e c n)
  have iv: "interval_with_jitter py self started_at (n + 1) =
            interval_with_jitter py b started_at (n + 1)"
    using "1.prems" by (rule interval_with_jitter_cong)
  have L: "estimate_poke_count py self started_at e c n =
           (if c \<le> e
            then estimate_poke_count py self started_at e
                   (c + interval_with_jitter py self started_at (n + 1)) (n + 1)
            else n)"
    by (rule estimate_poke_count.simps)
  have R: "estimate_poke_count py b started_at e c n =
           (if c \<le> e
            then estimate_poke_count py b started_at e
                   (c + interval_with_jitter py b started_at (n + 1)) (n + 1)
            else n)"
    by (rule estimate_poke_count.simps)
  show ?case
  proof (cases "c \<le> e")
    case True
    have "estimate_poke_count py self started_at e
            (c + interval_with_jitter py self started_at (n + 1)) (n + 1) =
          estimate_poke_count py b started_at e
            (c + interval_with_jitter py self started_at (n + 1)) (n + 1)"
      using "1.IH" [OF True] "1.prems" by simp
    then show ?thesis using L R True iv by simp
  next
    case False
    then show ?thesis using L R by simp
  qed
qed





lemma clocks_poke_at [simp]:
  "utcnow (E\<lparr>poke_at := f\<rparr>) = utcnow E"
  "monotonic (E\<lparr>poke_at := f\<rparr>) = monotonic E"
  "is_metadatabase_mysql (E\<lparr>poke_at := f\<rparr>) = is_metadatabase_mysql E"
  by (simp_all add: utcnow_def monotonic_def is_metadatabase_mysql_def fun_eq_iff)











section \<open>Properties of the history record\<close>

text \<open>
  C10. Recording a task instance is a no-op (neither the live instance nor the history
  table changes) when the table already holds a row for the same
  \<open>(dag_id, task_id, run_id, map_index, try_number)\<close>. When no such row exists and the
  instance is not in a finished state (null included), the end date of the live instance
  is stamped with the current time and its duration recomputed, and exactly one row is
  appended to the history: the copy of the stamped instance with state \<open>FAILED\<close>.
\<close>

theorem record_ti_noop_or_failed:
  "((\<exists>h \<in> set hist. same_try ti h) \<longrightarrow> record_ti St now ti hist = (ti, hist)) \<and>
   ((\<forall>h \<in> set hist. \<not> same_try ti h) \<and> \<not> state_in (state ti) (finished St) \<longrightarrow>
      (\<exists>ti' h. record_ti St now ti hist = (ti', hist @ [h]) \<and>
         ti' = set_duration (ti\<lparr>end_date := Some now\<rparr>) \<and>
         end_date ti' = Some now \<and>
         duration ti' = map_option (\<lambda>s. real_of_int (now - s) / 1000000) (start_date ti) \<and>
         state ti' = state ti \<and>
         h_state h = Some FAILED \<and> h_end_date h = Some now \<and> h_duration h = duration ti' \<and>
         same_try ti h))"
proof (intro conjI impI)
  assume "\<exists>h \<in> set hist. same_try ti h"
  then have "filter (same_try ti) hist \<noteq> []"
    by (simp add: filter_empty_conv)
  then show "record_ti St now ti hist = (ti, hist)"
    by (simp add: record_ti_def)
next
  assume a: "(\<forall>h \<in> set hist. \<not> same_try ti h) \<and> \<not> state_in (state ti) (finished St)"
  then have e: "filter (same_try ti) hist = []"
    by (simp add: filter_empty_conv)
  define ti' where "ti' = set_duration (ti\<lparr>end_date := Some now\<rparr>)"
  define h where "h = TaskInstanceHistory_init ti' (Some FAILED)"
  have r: "record_ti St now ti hist = (ti', hist @ [h])"
    using a e by (simp add: record_ti_def ti'_def h_def)
  have p: "end_date ti' = Some now" "state ti' = state ti"
    "duration ti' = map_option (\<lambda>s. real_of_int (now - s) / 1000000) (start_date ti)"
    "dag_id ti' = dag_id ti" "task_id ti' = task_id ti" "run_id ti' = run_id ti"
    "map_index ti' = map_index ti" "try_number ti' = try_number ti"
    by (simp_all add: ti'_def set_duration_def split: option.splits)
  have q: "h_state h = Some FAILED" "h_end_date h = Some now" "h_duration h = duration ti'"
    "same_try ti h"
    using p by (simp_all add: h_def TaskInstanceHistory_init_def same_try_def)
  show "\<exists>ti' h. record_ti St now ti hist = (ti', hist @ [h]) \<and>
         ti' = set_duration (ti\<lparr>end_date := Some now\<rparr>) \<and>
         end_date ti' = Some now \<and>
         duration ti' = map_option (\<lambda>s. real_of_int (now - s) / 1000000) (start_date ti) \<and>
         state ti' = state ti \<and>
         h_state h = Some FAILED \<and> h_end_date h = Some now \<and> h_duration h = duration ti' \<and>
         same_try ti h"
    using r p q ti'_def by blast
qed

theorem record_ti_noop_or_failed_witness:
  "(\<exists>h \<in> set [TaskInstanceHistory_init running_ti None]. same_try running_ti h) \<and>
   record_ti airflow_State 3000000 running_ti [TaskInstanceHistory_init running_ti None]
     = (running_ti, [TaskInstanceHistory_init running_ti None]) \<and>
   filter (same_try running_ti) [] = [] \<and>
   \<not> state_in (state running_ti) (finished airflow_State) \<and>
   (\<exists>ti' h. record_ti airflow_State 3000000 running_ti [] = (ti', [] @ [h]) \<and>
      end_date ti' = Some 3000000 \<and> duration ti' = Some 2 \<and> h_state h = Some FAILED)"
proof -
  have a: "\<exists>h \<in> set [TaskInstanceHistory_init running_ti None]. same_try running_ti h"
    by (simp add: same_try_def TaskInstanceHistory_init_def)
  have b: "(\<forall>h \<in> set []. \<not> same_try running_ti h) \<and>
           \<not> state_in (state running_ti) (finished airflow_State)"
    by (simp add: state_in_def running_ti_def ti_t_def TaskInstance_init_def airflow_State_def)
  have s: "start_date running_ti = Some 1000000"
    by (simp add: running_ti_def ti_t_def TaskInstance_init_def)
  from record_ti_noop_or_failed
         [of "[TaskInstanceHistory_init running_ti None]" running_ti airflow_State 3000000] a
  have 1: "record_ti airflow_State 3000000 running_ti [TaskInstanceHistory_init running_ti None]
             = (running_ti, [TaskInstanceHistory_init running_ti None])"
    by blast
  from record_ti_noop_or_failed [of "[]" running_ti airflow_State 3000000] b
  obtain ti' h where "record_ti airflow_State 3000000 running_ti [] = (ti', [] @ [h])"
    "end_date ti' = Some 3000000"
    "duration ti' = map_option (\<lambda>s. real_of_int (3000000 - s) / 1000000) (start_date running_ti)"
    "h_state h = Some FAILED"
    by blast
  then have 2: "\<exists>ti' h. record_ti airflow_State 3000000 running_ti [] = (ti', [] @ [h]) \<and>
      end_date ti' = Some 3000000 \<and> duration ti' = Some 2 \<and> h_state h = Some FAILED"
    using s by auto
  have 3: "filter (same_try running_ti) [] = []" by simp
  show ?thesis using a b 1 2 3 by blast
qed

section \<open>Properties of the expansion of a mapped task\<close>

text \<open>
  C5. When the unmapped instance of the task (map index -1) is still in the table in an
  unfinished or null state and the upstream recorded the length 0, the expansion returns
  the empty list, gives that instance the state \<open>SKIPPED\<close> and leaves every other row
  as it is: the table has the same rows under the same keys, so no row is created.
\<close>

theorem expand_zero_length_skips_placeholder:
  assumes "task_map_info upstream_ti session = Inr (Some 0)"
    and "pk_unique (task_instances session)"
    and "p \<in> set (task_instances session)"
    and "is_unmapped St self upstream_ti p"
  shows "\<exists>session'. expand_mapped_task St hook self upstream_ti session = Inr ([], session') \<and>
           task_maps session' = task_maps session \<and>
           task_instances session' =
             map (\<lambda>ti. if ti = p then ti\<lparr>state := Some SKIPPED\<rparr> else ti)
                 (task_instances session) \<and>
           length (task_instances session') = length (task_instances session) \<and>
           map pk (task_instances session') = map pk (task_instances session)"
proof -
  define session' where "session' = session\<lparr>task_instances :=
      map (\<lambda>ti. if ti = p then ti\<lparr>state := Some SKIPPED\<rparr> else ti) (task_instances session)\<rparr>"
  have "expand_mapped_task St hook self upstream_ti session = Inr ([], session')"
    unfolding session'_def by (rule expand_skip [OF assms(1) _ assms(2-4)]) simp
  moreover have "map pk (task_instances session') = map pk (task_instances session)"
    by (simp add: session'_def pk_def comp_def)
  ultimately show ?thesis
    by (intro exI [of _ session']) (simp add: session'_def)
qed

theorem expand_zero_length_skips_placeholder_witness:
  "task_map_info up_ti \<lparr>task_maps = [tm_u 0],
       task_instances = [ti_t (- 1) (Some SCHEDULED), up_ti]\<rparr> = Inr (Some 0) \<and>
   pk_unique [ti_t (- 1) (Some SCHEDULED), up_ti] \<and>
   is_unmapped airflow_State op_t up_ti (ti_t (- 1) (Some SCHEDULED)) \<and>
   expand_mapped_task airflow_State (\<lambda>ti. ti) op_t up_ti
       \<lparr>task_maps = [tm_u 0], task_instances = [ti_t (- 1) (Some SCHEDULED), up_ti]\<rparr>
     = Inr ([], \<lparr>task_maps = [tm_u 0],
                 task_instances = [ti_t (- 1) (Some SKIPPED), up_ti]\<rparr>)"
proof -
  let ?s = "\<lparr>task_maps = [tm_u 0], task_instances = [ti_t (- 1) (Some SCHEDULED), up_ti]\<rparr>"
  have a: "task_map_info up_ti ?s = Inr (Some 0)"
    by (simp add: task_map_info_def tm_of_def tm_u_def up_ti_def TaskInstance_init_def)
  have b: "pk_unique (task_instances ?s)"
    by (simp add: pk_unique_def pk_def ti_t_def up_ti_def op_t_def TaskInstance_init_def)
  have c: "ti_t (- 1) (Some SCHEDULED) \<in> set (task_instances ?s)"
    by simp
  have d: "is_unmapped airflow_State op_t up_ti (ti_t (- 1) (Some SCHEDULED))"
    by (simp add: is_unmapped_def state_in_def airflow_State_def ti_t_def up_ti_def op_t_def
        TaskInstance_init_def)
  have n: "up_ti \<noteq> ti_t (- 1) (Some SCHEDULED)"
    by (simp add: ti_t_def up_ti_def op_t_def TaskInstance_init_def)
  have e: "(ti_t (- 1) (Some SCHEDULED))\<lparr>state := Some SKIPPED\<rparr> = ti_t (- 1) (Some SKIPPED)"
    by (simp add: ti_t_def TaskInstance_init_def)
  from expand_zero_length_skips_placeholder [OF a b c d, of "\<lambda>ti. ti"]
  have "expand_mapped_task airflow_State (\<lambda>ti. ti) op_t up_ti ?s
          = Inr ([], \<lparr>task_maps = [tm_u 0],
                      task_instances = [ti_t (- 1) (Some SKIPPED), up_ti]\<rparr>)"
    using n e by auto
  then show ?thesis using a b d by simp
qed




text \<open>
  C1 as the code has it. For a resolved length \<open>n \<ge> 1\<close> the returned list is ascending by
  map index (the hook keeps the map index). When the unmapped instance is still unfinished
  and no row of index 0 stands in its way, the list holds exactly the indices \<open>0 .. n - 1\<close>:
  the re-keyed placeholder first, then the rows built for \<open>1 .. n - 1\<close>. When there is no
  unfinished unmapped instance, the list holds only the rows the call builds, the indices
  \<open>m + 1 .. n - 1\<close> above the largest existing map index \<open>m\<close>; the rows that exist already
  are not returned.
\<close>

theorem expand_returns_ascending:
  assumes "task_map_info upstream_ti session = Inr (Some n)" and "1 \<le> n"
    and "pk_unique (task_instances session)"
    and "\<forall>ti. map_index (hook ti) = map_index ti"
  shows "(p \<in> set (task_instances session) \<and> is_unmapped St self upstream_ti p \<and>
          \<not> (\<exists>ti \<in> set (task_instances session). same_key ti (p\<lparr>map_index := 0\<rparr>)) \<longrightarrow>
            (\<exists>ret session'.
               expand_mapped_task St hook self upstream_ti session = Inr (ret, session') \<and>
               map map_index ret = [0 .. n - 1] \<and> hd ret = p\<lparr>map_index := 0\<rparr>)) \<and>
         (filter (is_unmapped St self upstream_ti) (task_instances session) = [] \<and>
          max_map_index (filter (of_task self upstream_ti) (task_instances session)) = Some m \<longrightarrow>
            (\<exists>ret session'.
               expand_mapped_task St hook self upstream_ti session = Inr (ret, session') \<and>
               map map_index ret = [m + 1 .. n - 1]))"
proof (intro conjI impI)
  have idx: "\<And>st xs. map (\<lambda>i. map_index (mark_removed self upstream_ti n
                 (mapped_ti hook self (run_id upstream_ti) st i))) xs = xs"
    using assms(4) by (intro map_idI) (simp add: mapped_ti_def)
  {
    assume a: "p \<in> set (task_instances session) \<and> is_unmapped St self upstream_ti p \<and>
          \<not> (\<exists>ti \<in> set (task_instances session). same_key ti (p\<lparr>map_index := 0\<rparr>))"
    have u: "[0 .. n - 1] = 0 # [1 .. n - 1]"
      using assms(2) by (simp add: upto_rec1)
    have k: "mark_removed self upstream_ti n (p\<lparr>map_index := 0\<rparr>) = p\<lparr>map_index := 0\<rparr>"
      using assms(2) by (simp add: mark_removed_def)
    from a expand_placeholder [OF assms(1,2,3), of p St self hook]
    show "\<exists>ret session'.
               expand_mapped_task St hook self upstream_ti session = Inr (ret, session') \<and>
               map map_index ret = [0 .. n - 1] \<and> hd ret = p\<lparr>map_index := 0\<rparr>"
      using idx u k by (simp add: comp_def)
  }
  {
    assume a: "filter (is_unmapped St self upstream_ti) (task_instances session) = [] \<and>
          max_map_index (filter (of_task self upstream_ti) (task_instances session)) = Some m"
    from a expand_missing [OF assms(1), of St self m hook]
    show "\<exists>ret session'.
               expand_mapped_task St hook self upstream_ti session = Inr (ret, session') \<and>
               map map_index ret = [m + 1 .. n - 1]"
      using idx by (simp add: comp_def)
  }
qed

text \<open>
  The claim as written fails where rows 0 and 1 exist and the length is 3: the call
  returns the one row it creates, of index 2, and not the rows of indices 0 and 1.
\<close>

theorem expand_returns_only_new_counterexample:
  "expand_mapped_task airflow_State (\<lambda>ti. ti) op_t up_ti
       \<lparr>task_maps = [tm_u 3],
        task_instances = [ti_t 0 (Some SUCCESS), ti_t 1 (Some SUCCESS)]\<rparr>
     = Inr ([ti_t 2 None],
            \<lparr>task_maps = [tm_u 3],
             task_instances = [ti_t 0 (Some SUCCESS), ti_t 1 (Some SUCCESS), ti_t 2 None]\<rparr>)"
proof -
  let ?s = "\<lparr>task_maps = [tm_u 3],
        task_instances = [ti_t 0 (Some SUCCESS), ti_t 1 (Some SUCCESS)]\<rparr>"
  have a: "task_map_info up_ti ?s = Inr (Some 3)"
    by (simp add: task_map_info_def tm_of_def tm_u_def up_ti_def TaskInstance_init_def)
  have b: "filter (is_unmapped airflow_State op_t up_ti) (task_instances ?s) = []"
    by (simp add: is_unmapped_def ti_t_def TaskInstance_init_def)
  have c: "max_map_index (filter (of_task op_t up_ti) (task_instances ?s)) = Some 1"
    by (simp add: of_task_def ti_t_def up_ti_def op_t_def TaskInstance_init_def)
  have d: "[(2::int) .. 2] = [2]"
    by (simp add: upto_rec1)
  have e: "mapped_ti (\<lambda>ti. ti) op_t (run_id up_ti) None 2 = ti_t 2 None"
    by (simp add: mapped_ti_def ti_t_def up_ti_def TaskInstance_init_def)
  have f: "merge (ti_t 2 None) [ti_t 0 (Some SUCCESS), ti_t 1 (Some SUCCESS)]
             = [ti_t 0 (Some SUCCESS), ti_t 1 (Some SUCCESS), ti_t 2 None]"
    by (simp add: merge_def same_key_def ti_t_def TaskInstance_init_def)
  have g: "map (mark_removed op_t up_ti 3)
             [ti_t 0 (Some SUCCESS), ti_t 1 (Some SUCCESS), ti_t 2 None]
           = [ti_t 0 (Some SUCCESS), ti_t 1 (Some SUCCESS), ti_t 2 None]"
    by (simp add: mark_removed_def ti_t_def TaskInstance_init_def)
  show ?thesis
    using expand_missing [OF a b c, of "\<lambda>ti. ti"] d e f g by simp
qed

theorem expand_returns_ascending_witness:
  "task_map_info up_ti \<lparr>task_maps = [tm_u 3], task_instances = [ti_t (- 1) None]\<rparr>
     = Inr (Some 3) \<and>
   (1::int) \<le> 3 \<and> pk_unique [ti_t (- 1) None] \<and>
   is_unmapped airflow_State op_t up_ti (ti_t (- 1) None) \<and>
   (\<exists>ret session'.
      expand_mapped_task airflow_State (\<lambda>ti. ti) op_t up_ti
        \<lparr>task_maps = [tm_u 3], task_instances = [ti_t (- 1) None]\<rparr> = Inr (ret, session') \<and>
      map map_index ret = [0, 1, 2] \<and> hd ret = ti_t 0 None) \<and>
   filter (is_unmapped airflow_State op_t up_ti) [ti_t 0 (Some SUCCESS), ti_t 1 (Some SUCCESS)]
     = [] \<and>
   max_map_index (filter (of_task op_t up_ti) [ti_t 0 (Some SUCCESS), ti_t 1 (Some SUCCESS)])
     = Some 1 \<and>
   (\<exists>ret session'.
      expand_mapped_task airflow_State (\<lambda>ti. ti) op_t up_ti
        \<lparr>task_maps = [tm_u 3],
         task_instances = [ti_t 0 (Some SUCCESS), ti_t 1 (Some SUCCESS)]\<rparr> = Inr (ret, session') \<and>
      map map_index ret = [2])"
proof -
  let ?s = "\<lparr>task_maps = [tm_u 3], task_instances = [ti_t (- 1) None]\<rparr>"
  let ?t = "\<lparr>task_maps = [tm_u 3],
         task_instances = [ti_t 0 (Some SUCCESS), ti_t 1 (Some SUCCESS)]\<rparr>"
  have a: "task_map_info up_ti ?s = Inr (Some 3)" "task_map_info up_ti ?t = Inr (Some 3)"
    by (simp_all add: task_map_info_def tm_of_def tm_u_def up_ti_def TaskInstance_init_def)
  have n: "(1::int) \<le> 3" by simp
  have b: "pk_unique (task_instances ?s)" "pk_unique (task_instances ?t)"
    by (simp_all add: pk_unique_def pk_def ti_t_def TaskInstance_init_def)
  have h: "\<forall>ti. map_index ((\<lambda>ti. ti) ti) = map_index ti" by simp
  have c: "ti_t (- 1) None \<in> set (task_instances ?s) \<and>
           is_unmapped airflow_State op_t up_ti (ti_t (- 1) None) \<and>
           \<not> (\<exists>ti \<in> set (task_instances ?s). same_key ti ((ti_t (- 1) None)\<lparr>map_index := 0\<rparr>))"
    by (simp add: is_unmapped_def same_key_def ti_t_def up_ti_def op_t_def TaskInstance_init_def)
  have d: "filter (is_unmapped airflow_State op_t up_ti) (task_instances ?t) = [] \<and>
           max_map_index (filter (of_task op_t up_ti) (task_instances ?t)) = Some 1"
    by (simp add: is_unmapped_def of_task_def ti_t_def up_ti_def op_t_def TaskInstance_init_def)
  have u: "[(0::int) .. 3 - 1] = [0, 1, 2]" "[(1::int) + 1 .. 3 - 1] = [2]"
    by (simp_all add: upto_rec1)
  have z: "(ti_t (- 1) None)\<lparr>map_index := 0\<rparr> = ti_t 0 None"
    by (simp add: ti_t_def TaskInstance_init_def)
  have 1: "\<exists>ret session'.
      expand_mapped_task airflow_State (\<lambda>ti. ti) op_t up_ti ?s = Inr (ret, session') \<and>
      map map_index ret = [0, 1, 2] \<and> hd ret = ti_t 0 None"
    using expand_returns_ascending [OF a(1) n b(1) h, THEN conjunct1, rule_format, OF c]
    unfolding u z .
  have 2: "\<exists>ret session'.
      expand_mapped_task airflow_State (\<lambda>ti. ti) op_t up_ti ?t = Inr (ret, session') \<and>
      map map_index ret = [2]"
    using expand_returns_ascending [OF a(2) n b(2) h, THEN conjunct2, rule_format, OF d]
    unfolding u .
  show ?thesis
    using a(1) n b(1) c d 1 2 by simp
qed



section \<open>Properties of the sensor\<close>



text \<open>
  C7. Two invocations of \<^verbatim>\<open>_get_next_poke_interval\<close> return the same interval whenever the
  sensors agree on the configuration (\<open>poke_interval\<close>, \<open>timeout\<close>, \<open>exponential_backoff\<close>,
  \<open>max_wait\<close>, \<open>mode\<close>) and on \<open>dag_id\<close> and \<open>task_id\<close>, the arguments \<open>started_at\<close> and
  \<open>poke_count\<close> are the same, and the clock shows the same elapsed run duration at the
  (at most two) readings the method takes. Nothing else of the sensor, of the world or of
  the clock enters the result.
\<close>

theorem next_poke_interval_deterministic:
  assumes "poke_interval a = poke_interval b" and "timeout a = timeout b"
    and "exponential_backoff a = exponential_backoff b" and "max_wait a = max_wait b"
    and "mode a = mode b"
    and "sensor_dag_id a = sensor_dag_id b" and "sensor_task_id a = sensor_task_id b"
    and "fst (run_duration1 w1) = fst (run_duration2 w2)"
    and "fst (run_duration1 (snd (run_duration1 w1))) = fst (run_duration2 (snd (run_duration2 w2)))"
  shows "fst (get_next_poke_interval py a started_at run_duration1 poke_count w1) =
         fst (get_next_poke_interval py b started_at run_duration2 poke_count w2)"
proof -
  have iv: "\<And>n. interval_with_jitter py a started_at n = interval_with_jitter py b started_at n"
    using assms(1,6,7) by (rule interval_with_jitter_cong)
  have est: "\<And>e. estimate_poke_count py a started_at e 0 0 = estimate_poke_count py b started_at e 0 0"
    using assms(1,6,7) by (rule estimate_poke_count_cong)
  have rs: "reschedule a = reschedule b" using assms(5) by (simp add: reschedule_def)
  obtain d1 v1 where r1: "run_duration1 w1 = (d1, v1)" by (cases "run_duration1 w1")
  obtain d2 v2 where r2: "run_duration2 w2 = (d2, v2)" by (cases "run_duration2 w2")
  obtain d1' v1' where r1': "run_duration1 v1 = (d1', v1')" by (cases "run_duration1 v1")
  obtain d2' v2' where r2': "run_duration2 v2 = (d2', v2')" by (cases "run_duration2 v2")
  have d: "d1 = d2" "d1' = d2'" using assms(8,9) r1 r2 r1' r2' by simp_all
  show ?thesis
    using assms(1-4) rs iv est r1 r2 r1' r2' d
    by (simp add: get_next_poke_interval_def Let_def split: option.splits)
qed

theorem next_poke_interval_deterministic_witness:
  "poke_interval sensor_a = poke_interval sensor_b \<and> timeout sensor_a = timeout sensor_b \<and>
   exponential_backoff sensor_a = exponential_backoff sensor_b \<and>
   max_wait sensor_a = max_wait sensor_b \<and> mode sensor_a = mode sensor_b \<and>
   sensor_dag_id sensor_a = sensor_dag_id sensor_b \<and>
   sensor_task_id sensor_a = sensor_task_id sensor_b \<and>
   fail_policy sensor_a \<noteq> fail_policy sensor_b \<and>
   fst (get_next_poke_interval py_toy sensor_a (Monotonic 0) five 3 ()) = 127 \<and>
   fst (get_next_poke_interval py_toy sensor_b (Monotonic 0) five 3 ()) = 127"
proof -
  have c: "poke_interval sensor_a = poke_interval sensor_b" "timeout sensor_a = timeout sensor_b"
    "exponential_backoff sensor_a = exponential_backoff sensor_b"
    "max_wait sensor_a = max_wait sensor_b" "mode sensor_a = mode sensor_b"
    "sensor_dag_id sensor_a = sensor_dag_id sensor_b"
    "sensor_task_id sensor_a = sensor_task_id sensor_b"
    by (simp_all add: sensor_b_def)
  have r: "fst (five ()) = fst (five ())" "fst (five (snd (five ()))) = fst (five (snd (five ())))"
    by simp_all
  have p: "fail_policy sensor_a \<noteq> fail_policy sensor_b"
    by (simp add: sensor_a_def sensor_b_def)
  have a: "fst (get_next_poke_interval py_toy sensor_a (Monotonic 0) five 3 ()) = 127"
    by (simp add: get_next_poke_interval_def sensor_a_def py_toy_def five_def reschedule_def
        interval_with_jitter_def min_backoff_def run_hash_def py_int_def pow2_def
        timedelta_max_total_seconds_def Let_def)
  have "fst (get_next_poke_interval py_toy sensor_a (Monotonic 0) five 3 ()) =
        fst (get_next_poke_interval py_toy sensor_b (Monotonic 0) five 3 ())"
    using c r by (rule next_poke_interval_deterministic)
  then have b: "fst (get_next_poke_interval py_toy sensor_b (Monotonic 0) five 3 ()) = 127"
    using a by simp
  show ?thesis using c p a b by blast
qed

end
